theory Spec2Isabelle
  imports
    Complex_Main
    "HOL-Library.Char_ord"
    "HOL-Library.List_Lexorder"
    "HOL-Library.Product_Lexorder"
    "HOL-Library.Multiset"
begin

section \<open>PLTR stock service: the ingestion script and the Flask routes\<close>

text \<open>
  The development embeds \<^verbatim>\<open>src/data_ingestion.py\<close> and \<^verbatim>\<open>src/routes.py\<close>.
  The repository's own code is three request handlers, a connection helper and
  a one-statement load. What they call (the Python constructors \<^verbatim>\<open>float\<close> and
  \<^verbatim>\<open>int\<close>, the \<^verbatim>\<open>sqlite3\<close> module, Flask's \<^verbatim>\<open>jsonify\<close>, pandas'
  \<^verbatim>\<open>to_sql\<close>) is library code; its behaviour is written out below as far as the
  handlers use it.
\<close>

subsection \<open>Exceptions\<close>

text \<open>
  The handlers separate exactly two families: \<^verbatim>\<open>sqlite3.Error\<close> and every other
  \<^verbatim>\<open>Exception\<close>. Each exception carries the text that \<^verbatim>\<open>str(e)\<close> yields.
\<close>

datatype py_exception =
    Sqlite3Error string
  | TypeError string
  | ValueError string
  | OverflowError string

fun is_sqlite3_error :: "py_exception \<Rightarrow> bool" where
  "is_sqlite3_error (Sqlite3Error m) = True"
| "is_sqlite3_error (TypeError m) = False"
| "is_sqlite3_error (ValueError m) = False"
| "is_sqlite3_error (OverflowError m) = False"

fun str_exception :: "py_exception \<Rightarrow> string" where
  "str_exception (Sqlite3Error m) = m"
| "str_exception (TypeError m) = m"
| "str_exception (ValueError m) = m"
| "str_exception (OverflowError m) = m"

definition and_then :: "'e + 'a \<Rightarrow> ('a \<Rightarrow> 'e + 'b) \<Rightarrow> 'e + 'b" where
  "and_then m k = (case m of Inl e \<Rightarrow> Inl e | Inr a \<Rightarrow> k a)"

subsection \<open>Stored values and rows\<close>

text \<open>
  SQLite types values, not columns: a cell holds NULL, a 64-bit INTEGER, a REAL,
  TEXT or a BLOB. The type \<open>'f\<close> stands for Python's \<^verbatim>\<open>float\<close> (an IEEE double);
  no theorem below depends on floating-point arithmetic, so it stays a type
  parameter. TEXT is held as its bytes.
\<close>

datatype 'f sql_value =
    SqlNull
  | SqlInteger int
  | SqlReal 'f
  | SqlText string
  | SqlBlob string

text \<open>
  The \<^verbatim>\<open>date\<close> column is the one the ingestion script creates from the
  \<^verbatim>\<open>YYYY-MM-DD\<close> strings of the CSV file, a column declared TEXT. SQLite stores
  only NULL, TEXT and BLOB in such a column.
\<close>

datatype text_value =
    TextNull
  | Text string
  | TextBlob string

text \<open>
  One row of the table \<^verbatim>\<open>stocks\<close>, with the seven columns of the CSV header:
  \<^verbatim>\<open>date, open, high, low, close, adj_close, volume\<close>.
\<close>

record 'f row =
  date :: text_value
  "open" :: "'f sql_value"
  high :: "'f sql_value"
  low :: "'f sql_value"
  close :: "'f sql_value"
  adj_close :: "'f sql_value"
  volume :: "'f sql_value"

subsection \<open>Python values and the constructors \<^verbatim>\<open>float\<close> and \<^verbatim>\<open>int\<close>\<close>

datatype 'f py_value =
    PyNone
  | PyBool bool
  | PyInt int
  | PyFloat 'f
  | PyStr string
  | PyBytes string
  | PyList "'f py_value list"
  | PyDict "(string \<times> 'f py_value) list"

text \<open>
  What the interpreter contributes to \<^verbatim>\<open>float(x)\<close> and \<^verbatim>\<open>int(x)\<close>: rounding an
  integer to a double, parsing text, truncating a double, and the wording of the
  messages. A parser returns \<open>Inl msg\<close> where Python raises \<^verbatim>\<open>ValueError(msg)\<close>.
  Every theorem below holds for each value of this record.
\<close>

record 'f python =
  float_of_int :: "int \<Rightarrow> 'f"
  float_of_str :: "string \<Rightarrow> string + 'f"
  float_of_bytes :: "string \<Rightarrow> string + 'f"
  is_nan :: "'f \<Rightarrow> bool"
  is_inf :: "'f \<Rightarrow> bool"
  trunc_float :: "'f \<Rightarrow> int"
  int_of_str :: "string \<Rightarrow> string + int"
  int_of_bytes :: "string \<Rightarrow> string + int"
  float_none_message :: string
  int_none_message :: string

text \<open>
  \<^verbatim>\<open>float(row[c])\<close> for a stored value: \<^verbatim>\<open>sqlite3\<close> hands NULL over as
  \<^verbatim>\<open>None\<close>, INTEGER as \<^verbatim>\<open>int\<close>, REAL as \<^verbatim>\<open>float\<close>, TEXT as \<^verbatim>\<open>str\<close> and BLOB as
  \<^verbatim>\<open>bytes\<close>. A 64-bit integer never overflows a double.
\<close>

fun py_float :: "'f python \<Rightarrow> 'f sql_value \<Rightarrow> py_exception + 'f" where
  "py_float py SqlNull = Inl (TypeError (float_none_message py))"
| "py_float py (SqlInteger n) = Inr (float_of_int py n)"
| "py_float py (SqlReal x) = Inr x"
| "py_float py (SqlText s) =
     (case float_of_str py s of Inl m \<Rightarrow> Inl (ValueError m) | Inr x \<Rightarrow> Inr x)"
| "py_float py (SqlBlob b) =
     (case float_of_bytes py b of Inl m \<Rightarrow> Inl (ValueError m) | Inr x \<Rightarrow> Inr x)"

text \<open>\<^verbatim>\<open>int(row[c])\<close> for a stored value; a double is truncated towards zero.\<close>

fun py_int :: "'f python \<Rightarrow> 'f sql_value \<Rightarrow> py_exception + int" where
  "py_int py SqlNull = Inl (TypeError (int_none_message py))"
| "py_int py (SqlInteger n) = Inr n"
| "py_int py (SqlReal x) =
     (if is_nan py x then Inl (ValueError ''cannot convert float NaN to integer'')
      else if is_inf py x then Inl (OverflowError ''cannot convert float infinity to integer'')
      else Inr (trunc_float py x))"
| "py_int py (SqlText s) =
     (case int_of_str py s of Inl m \<Rightarrow> Inl (ValueError m) | Inr n \<Rightarrow> Inr n)"
| "py_int py (SqlBlob b) =
     (case int_of_bytes py b of Inl m \<Rightarrow> Inl (ValueError m) | Inr n \<Rightarrow> Inr n)"

text \<open>\<^verbatim>\<open>row['date']\<close>, which the handlers pass on without a conversion.\<close>

fun date_value :: "text_value \<Rightarrow> 'f py_value" where
  "date_value TextNull = PyNone"
| "date_value (Text s) = PyStr s"
| "date_value (TextBlob b) = PyBytes b"

subsection \<open>\<^verbatim>\<open>jsonify\<close>\<close>

text \<open>
  Flask serialises \<^verbatim>\<open>None\<close>, booleans, numbers, strings, lists and dicts;
  \<^verbatim>\<open>bytes\<close> anywhere inside raises \<^verbatim>\<open>TypeError\<close>. The response body is kept as
  the value that was serialised.
\<close>

fun jsonable :: "'f py_value \<Rightarrow> bool" where
  "jsonable (PyBytes b) = False"
| "jsonable (PyList xs) = list_all jsonable xs"
| "jsonable (PyDict kvs) = list_all (\<lambda>kv. jsonable (snd kv)) kvs"
| "jsonable v = True"

definition jsonify :: "'f py_value \<Rightarrow> py_exception + 'f py_value" where
  "jsonify v =
     (if jsonable v then Inr v
      else Inl (TypeError ''Object of type bytes is not JSON serializable''))"

text \<open>A response is the pair the handlers return: the body and the status code.\<close>

type_synonym 'f response = "'f py_value \<times> nat"


subsection \<open>Decimal rendering\<close>

text \<open>\<^verbatim>\<open>str(n)\<close> for a non-negative integer, as the f-strings use it.\<close>

definition digit_char :: "nat \<Rightarrow> char" where
  "digit_char d = ''0123456789'' ! (d mod 10)"

fun str_nat :: "nat \<Rightarrow> string" where
  "str_nat n = (if n < 10 then [digit_char n] else str_nat (n div 10) @ [digit_char (n mod 10)])"

declare str_nat.simps [simp del]

subsection \<open>The store\<close>

text \<open>
  The file \<^verbatim>\<open>pltr.db\<close> as a request finds it: \<^verbatim>\<open>sqlite3.connect\<close> fails on it
  (\<open>Unopenable\<close>), or it opens and every statement fails (\<open>Unreadable\<close>: not a
  database, locked), or it is a database, a map from table names to rows in
  storage order. A file that does not exist yet is created empty by
  \<^verbatim>\<open>connect\<close>: \<open>Database Map.empty\<close>.
\<close>

type_synonym 'f tables = "string \<rightharpoonup> 'f row list"

datatype 'f db_file =
    Unopenable string
  | Unreadable string
  | Database "'f tables"

datatype 'f connection =
    BrokenConnection string
  | Connection "'f tables"

definition get_db_connection :: "'f db_file \<Rightarrow> py_exception + 'f connection" where
  "get_db_connection f =
     (case f of
        Unopenable m \<Rightarrow> Inl (Sqlite3Error m)
      | Unreadable m \<Rightarrow> Inr (BrokenConnection m)
      | Database tabs \<Rightarrow> Inr (Connection tabs))"

text \<open>
  \<^verbatim>\<open>ORDER BY date\<close> compares by storage class first (NULL, then TEXT, then BLOB)
  and bytewise within a class.
\<close>

fun date_key :: "text_value \<Rightarrow> nat \<times> string" where
  "date_key TextNull = (0, [])"
| "date_key (Text s) = (1, s)"
| "date_key (TextBlob b) = (2, b)"

text \<open>
  \<^verbatim>\<open>conn.execute(query, params)\<close> for the two statements the handlers issue. The
  parameters are Python strings, bound as TEXT; \<^verbatim>\<open>date = ?\<close> holds for a row
  exactly when its date is TEXT with the same bytes (NULL and BLOB never equal a
  TEXT value). Rows that tie under \<^verbatim>\<open>ORDER BY\<close> come in an order SQLite does not
  fix; the model takes the stable one, and no theorem depends on it. Without
  \<^verbatim>\<open>ORDER BY\<close> the scan yields rows in storage order. Any other statement text
  is outside the model, and no handler reaches that branch.
\<close>

definition execute ::
  "'f connection \<Rightarrow> string \<Rightarrow> string list \<Rightarrow> py_exception + 'f row list" where
  "execute conn query params =
     (case conn of
        BrokenConnection m \<Rightarrow> Inl (Sqlite3Error m)
      | Connection tabs \<Rightarrow>
          (case tabs ''stocks'' of
             None \<Rightarrow> Inl (Sqlite3Error ''no such table: stocks'')
           | Some rows \<Rightarrow>
               if query = ''SELECT * FROM stocks ORDER BY date'' then
                 (if params = [] then Inr (sort_key (\<lambda>r. date_key (date r)) rows)
                  else Inl (Sqlite3Error ''Incorrect number of bindings supplied''))
               else if query = ''SELECT * FROM stocks WHERE date = ?'' then
                 (case params of
                    [p] \<Rightarrow> Inr (filter (\<lambda>r. date r = Text p) rows)
                  | _ \<Rightarrow> Inl (Sqlite3Error ''Incorrect number of bindings supplied''))
               else Inl (Sqlite3Error ''statement outside the model'')))"

definition fetchall :: "'e + 'a list \<Rightarrow> 'e + 'a list" where
  "fetchall cursor = cursor"

definition fetchone :: "'e + 'a list \<Rightarrow> 'e + 'a option" where
  "fetchone cursor =
     (case cursor of
        Inl e \<Rightarrow> Inl e
      | Inr rows \<Rightarrow> Inr (case rows of [] \<Rightarrow> None | r # rest \<Rightarrow> Some r))"

text \<open>
  What has happened to the request's connection by the time the handler returns
  its response.
\<close>

datatype conn_status = NotOpened | LeftOpen | Closed

subsection \<open>\<^verbatim>\<open>routes.py\<close>: the handlers\<close>

text \<open>
  The dict literal of both data handlers, evaluated in source order: the date as
  stored, five prices through \<^verbatim>\<open>float\<close>, the volume through \<^verbatim>\<open>int\<close>. The
  first conversion that raises ends it.
\<close>

definition stock_record :: "'f python \<Rightarrow> 'f row \<Rightarrow> py_exception + 'f py_value" where
  "stock_record py r =
     and_then (py_float py (open r)) (\<lambda>x_open.
     and_then (py_float py (high r)) (\<lambda>x_high.
     and_then (py_float py (low r)) (\<lambda>x_low.
     and_then (py_float py (close r)) (\<lambda>x_close.
     and_then (py_float py (adj_close r)) (\<lambda>x_adj.
     and_then (py_int py (volume r)) (\<lambda>x_volume.
       Inr (PyDict
         [(''date'', date_value (date r)),
          (''open'', PyFloat x_open),
          (''high'', PyFloat x_high),
          (''low'', PyFloat x_low),
          (''close'', PyFloat x_close),
          (''adj_close'', PyFloat x_adj),
          (''volume'', PyInt x_volume)])))))))"

text \<open>The loop \<^verbatim>\<open>for row in stocks_data: ... stocks_list.append(stock_record)\<close>.\<close>

fun stock_records :: "'f python \<Rightarrow> 'f row list \<Rightarrow> py_exception + 'f py_value list" where
  "stock_records py [] = Inr []"
| "stock_records py (r # rows) =
     and_then (stock_record py r) (\<lambda>record.
     and_then (stock_records py rows) (\<lambda>records.
       Inr (record # records)))"

text \<open>
  The body of the \<^verbatim>\<open>try\<close> block of \<^verbatim>\<open>get_stocks\<close>: what it returns or raises,
  and the state of its connection at that point. \<^verbatim>\<open>conn.close()\<close> is the
  statement after the loop.
\<close>

definition get_stocks_try ::
  "'f python \<Rightarrow> 'f db_file \<Rightarrow> (py_exception + 'f response) \<times> conn_status" where
  "get_stocks_try py f =
     (case get_db_connection f of
        Inl e \<Rightarrow> (Inl e, NotOpened)
      | Inr conn \<Rightarrow>
          (case fetchall (execute conn ''SELECT * FROM stocks ORDER BY date'' []) of
             Inl e \<Rightarrow> (Inl e, LeftOpen)
           | Inr stocks_data \<Rightarrow>
               (case stock_records py stocks_data of
                  Inl e \<Rightarrow> (Inl e, LeftOpen)
                | Inr stocks_list \<Rightarrow>
                    (and_then
                       (jsonify (PyDict
                          [(''success'', PyBool True),
                           (''data'', PyList stocks_list),
                           (''count'', PyInt (int (length stocks_list))),
                           (''message'', PyStr (''Successfully retrieved ''
                              @ str_nat (length stocks_list) @ '' stock records''))]))
                       (\<lambda>body. Inr (body, 200)),
                     Closed))))"

text \<open>
  The two \<^verbatim>\<open>except\<close> clauses of \<^verbatim>\<open>get_stocks\<close>. Their dicts hold a boolean and
  strings only, so \<^verbatim>\<open>jsonify\<close> cannot raise there.
\<close>

definition get_stocks :: "'f python \<Rightarrow> 'f db_file \<Rightarrow> 'f response \<times> conn_status" where
  "get_stocks py f =
     (case get_stocks_try py f of
        (Inr response, c) \<Rightarrow> (response, c)
      | (Inl e, c) \<Rightarrow>
          if is_sqlite3_error e then
            ((PyDict
               [(''success'', PyBool False),
                (''error'', PyStr ''Database error''),
                (''message'', PyStr (str_exception e))], 500), c)
          else
            ((PyDict
               [(''success'', PyBool False),
                (''error'', PyStr ''Internal server error''),
                (''message'', PyStr (str_exception e))], 500), c))"

text \<open>
  The statement of \<^verbatim>\<open>get_stocks_by_date\<close> as handed to \<^verbatim>\<open>conn.execute\<close>: the
  query text and the parameter tuple \<^verbatim>\<open>(date,)\<close>.
\<close>

definition date_query :: "string \<Rightarrow> string \<times> string list" where
  "date_query d = (''SELECT * FROM stocks WHERE date = ?'', [d])"

text \<open>
  The \<^verbatim>\<open>try\<close> block of \<^verbatim>\<open>get_stocks_by_date\<close>. Here \<^verbatim>\<open>conn.close()\<close> follows the
  query at once, before the row is converted. A fetched row has seven columns,
  so \<^verbatim>\<open>if stocks_date:\<close> tests only whether a row came back.
\<close>

definition get_stocks_by_date_try ::
  "'f python \<Rightarrow> string \<Rightarrow> 'f db_file \<Rightarrow> (py_exception + 'f response) \<times> conn_status" where
  "get_stocks_by_date_try py d f =
     (case get_db_connection f of
        Inl e \<Rightarrow> (Inl e, NotOpened)
      | Inr conn \<Rightarrow>
          (case fetchone (execute conn (fst (date_query d)) (snd (date_query d))) of
             Inl e \<Rightarrow> (Inl e, LeftOpen)
           | Inr stocks_date \<Rightarrow>
               (case stocks_date of
                  Some r \<Rightarrow>
                    (and_then (stock_record py r) (\<lambda>record.
                     and_then
                       (jsonify (PyDict
                          [(''success'', PyBool True),
                           (''data'', record),
                           (''message'', PyStr (''Successfully retrieved stock data for '' @ d))]))
                       (\<lambda>body. Inr (body, 200))),
                     Closed)
                | None \<Rightarrow>
                    (and_then
                       (jsonify (PyDict
                          [(''success'', PyBool False),
                           (''error'', PyStr ''Not found''),
                           (''message'', PyStr (''No stock data found for date '' @ d))]))
                       (\<lambda>body. Inr (body, 404)),
                     Closed))))"

definition get_stocks_by_date ::
  "'f python \<Rightarrow> string \<Rightarrow> 'f db_file \<Rightarrow> 'f response \<times> conn_status" where
  "get_stocks_by_date py d f =
     (case get_stocks_by_date_try py d f of
        (Inr response, c) \<Rightarrow> (response, c)
      | (Inl e, c) \<Rightarrow>
          if is_sqlite3_error e then
            ((PyDict
               [(''success'', PyBool False),
                (''error'', PyStr ''Database Error''),
                (''message'', PyStr (str_exception e))], 500), c)
          else
            ((PyDict
               [(''success'', PyBool False),
                (''error'', PyStr ''Internal Server Error''),
                (''message'', PyStr (str_exception e))], 500), c))"

subsection \<open>The health check\<close>

text \<open>
  \<^verbatim>\<open>datetime.now()\<close> is a naive datetime; \<^verbatim>\<open>isoformat()\<close> prints
  \<^verbatim>\<open>YYYY-MM-DDTHH:MM:SS\<close> and appends \<^verbatim>\<open>.ffffff\<close> when the microsecond is not
  zero.
\<close>

record datetime =
  year :: nat
  month :: nat
  day :: nat
  hour :: nat
  minute :: nat
  second :: nat
  microsecond :: nat

definition valid_datetime :: "datetime \<Rightarrow> bool" where
  "valid_datetime t \<longleftrightarrow>
     1 \<le> year t \<and> year t \<le> 9999 \<and> 1 \<le> month t \<and> month t \<le> 12 \<and>
     1 \<le> day t \<and> day t \<le> 31 \<and> hour t < 24 \<and> minute t < 60 \<and> second t < 60 \<and>
     microsecond t < 1000000"

definition zero_pad :: "nat \<Rightarrow> nat \<Rightarrow> string" where
  "zero_pad w n = replicate (w - length (str_nat n)) (CHR ''0'') @ str_nat n"

definition isoformat :: "datetime \<Rightarrow> string" where
  "isoformat t =
     zero_pad 4 (year t) @ ''-'' @ zero_pad 2 (month t) @ ''-'' @ zero_pad 2 (day t) @ ''T''
     @ zero_pad 2 (hour t) @ '':'' @ zero_pad 2 (minute t) @ '':'' @ zero_pad 2 (second t)
     @ (if microsecond t = 0 then [] else ''.'' @ zero_pad 6 (microsecond t))"

definition health_check :: "datetime \<Rightarrow> 'f response" where
  "health_check now =
     (PyDict [(''status'', PyStr ''healthy''), (''timestamp'', PyStr (isoformat now))], 200)"

text \<open>
  The three routes of the application. A request is served from the interpreter,
  the clock and the database file; the health check reads only the clock.
\<close>

datatype request = GetStocks | GetHealth | GetStocksByDate string

fun serve ::
  "'f python \<Rightarrow> datetime \<Rightarrow> 'f db_file \<Rightarrow> request \<Rightarrow> 'f response \<times> conn_status" where
  "serve py now f GetStocks = get_stocks py f"
| "serve py now f GetHealth = (health_check now, NotOpened)"
| "serve py now f (GetStocksByDate d) = get_stocks_by_date py d f"

text \<open>
  A timestamp pattern: \<open>d\<close> in the pattern stands for one decimal digit, every
  other character for itself.
\<close>

definition is_digit :: "char \<Rightarrow> bool" where
  "is_digit c \<longleftrightarrow> c \<in> set ''0123456789''"

fun matches :: "string \<Rightarrow> string \<Rightarrow> bool" where
  "matches [] [] = True"
| "matches (p # ps) (c # cs) = ((if p = CHR ''d'' then is_digit c else c = p) \<and> matches ps cs)"
| "matches [] (c # cs) = False"
| "matches (p # ps) [] = False"

definition iso_8601 :: "string \<Rightarrow> bool" where
  "iso_8601 s \<longleftrightarrow>
     matches ''dddd-dd-ddTdd:dd:dd'' s \<or> matches ''dddd-dd-ddTdd:dd:dd.dddddd'' s"

subsection \<open>\<^verbatim>\<open>data_ingestion.py\<close>\<close>




subsection \<open>Typed records\<close>


subsection \<open>Sample data\<close>

text \<open>
  One value of the interpreter record, used in the closed examples below: floats
  are rationals, and text parses when it is a plain unsigned decimal literal.
\<close>

definition digit_value :: "char \<Rightarrow> nat option" where
  "digit_value c =
     map_of [(CHR ''0'', 0), (CHR ''1'', 1), (CHR ''2'', 2), (CHR ''3'', 3), (CHR ''4'', 4),
             (CHR ''5'', 5), (CHR ''6'', 6), (CHR ''7'', 7), (CHR ''8'', 8), (CHR ''9'', 9)] c"

fun digits_value :: "nat \<Rightarrow> string \<Rightarrow> nat option" where
  "digits_value acc [] = Some acc"
| "digits_value acc (c # cs) =
     (case digit_value c of None \<Rightarrow> None | Some v \<Rightarrow> digits_value (10 * acc + v) cs)"

definition parse_nat :: "string \<Rightarrow> nat option" where
  "parse_nat s = (if s = [] then None else digits_value 0 s)"

definition parse_decimal :: "string \<Rightarrow> rat option" where
  "parse_decimal s =
     (let units = takeWhile (\<lambda>c. c \<noteq> CHR ''.'') s;
          rest = dropWhile (\<lambda>c. c \<noteq> CHR ''.'') s
      in case parse_nat units of
           None \<Rightarrow> None
         | Some w \<Rightarrow>
             (case rest of
                [] \<Rightarrow> Some (of_nat w)
              | dot # decimals \<Rightarrow>
                  (case parse_nat decimals of
                     None \<Rightarrow> None
                   | Some n \<Rightarrow> Some (of_nat w + of_nat n / 10 ^ length decimals))))"

definition decimal_python :: "rat python" where
  "decimal_python =
     \<lparr> float_of_int = of_int,
       float_of_str = (\<lambda>s. case parse_decimal s of
                              None \<Rightarrow> Inl (''could not convert string to float: '' @ s)
                            | Some x \<Rightarrow> Inr x),
       float_of_bytes = (\<lambda>s. case parse_decimal s of
                              None \<Rightarrow> Inl (''could not convert string to float: '' @ s)
                            | Some x \<Rightarrow> Inr x),
       is_nan = (\<lambda>x. False),
       is_inf = (\<lambda>x. False),
       trunc_float = (\<lambda>x. if 0 \<le> x then \<lfloor>x\<rfloor> else \<lceil>x\<rceil>),
       int_of_str = (\<lambda>s. case parse_nat s of
                            None \<Rightarrow> Inl (''invalid literal for int() with base 10: '' @ s)
                          | Some n \<Rightarrow> Inr (int n)),
       int_of_bytes = (\<lambda>s. case parse_nat s of
                            None \<Rightarrow> Inl (''invalid literal for int() with base 10: '' @ s)
                          | Some n \<Rightarrow> Inr (int n)),
       float_none_message = ''float() argument must be a string or a real number, not NoneType'',
       int_none_message = ''int() argument must be a string, a bytes-like object or a real number, not NoneType'' \<rparr>"

text \<open>
  Sample rows: two rows stored with native types for the same date, a row whose
  numbers are stored as text, rows with a NULL cell, and a row with unparsable
  text.
\<close>

definition sep30_row :: "rat row" where
  "sep30_row =
     \<lparr> date = Text ''2020-09-30'', open = SqlReal 10, high = SqlReal (1141 / 100),
       low = SqlReal (911 / 100), close = SqlReal (19 / 2), adj_close = SqlReal (19 / 2),
       volume = SqlInteger 338584400 \<rparr>"

definition sep30_revised_row :: "rat row" where
  "sep30_revised_row =
     \<lparr> date = Text ''2020-09-30'', open = SqlReal 11, high = SqlReal 12,
       low = SqlReal 9, close = SqlReal 10, adj_close = SqlReal 10,
       volume = SqlInteger 1000 \<rparr>"

definition oct01_text_row :: "rat row" where
  "oct01_text_row =
     \<lparr> date = Text ''2020-10-01'', open = SqlText ''9.69'', high = SqlText ''10.1'',
       low = SqlText ''9.23'', close = SqlText ''9.46'', adj_close = SqlText ''9.46'',
       volume = SqlText ''124297600'' \<rparr>"

definition null_open_row :: "rat row" where
  "null_open_row =
     \<lparr> date = Text ''2020-10-02'', open = SqlNull, high = SqlReal (37 / 4),
       low = SqlReal (181 / 20), close = SqlReal (23 / 25), adj_close = SqlReal (23 / 25),
       volume = SqlInteger 55018300 \<rparr>"

definition null_volume_row :: "rat row" where
  "null_volume_row =
     \<lparr> date = Text ''2020-10-05'', open = SqlReal (231 / 25), high = SqlReal (187 / 20),
       low = SqlReal (9 / 1), close = SqlReal (9 / 1), adj_close = SqlReal (9 / 1),
       volume = SqlNull \<rparr>"

definition unparsed_open_row :: "rat row" where
  "unparsed_open_row =
     \<lparr> date = Text ''2020-09-30'', open = SqlText ''n/a'', high = SqlReal (1141 / 100),
       low = SqlReal (911 / 100), close = SqlReal (19 / 2), adj_close = SqlReal (19 / 2),
       volume = SqlInteger 338584400 \<rparr>"

section \<open>Lemmas\<close>

lemmas sample_defs =
  sep30_row_def sep30_revised_row_def oct01_text_row_def null_open_row_def null_volume_row_def
  unparsed_open_row_def decimal_python_def parse_decimal_def parse_nat_def digit_value_def
  stock_record_def

lemmas eval_defs =
  get_stocks_def get_stocks_try_def get_stocks_by_date_def get_stocks_by_date_try_def
  get_db_connection_def fetchall_def fetchone_def execute_def date_query_def jsonify_def

lemma and_then_Inl [simp]: "and_then (Inl e) k = Inl e"
  by (simp add: and_then_def)

lemma and_then_Inr [simp]: "and_then (Inr a) k = k a"
  by (simp add: and_then_def)

lemma and_then_eq_Inr: "and_then m k = Inr b \<longleftrightarrow> (\<exists>a. m = Inr a \<and> k a = Inr b)"
  by (cases m) simp_all

subsection \<open>Records\<close>

lemma stock_record_shape:
  assumes "stock_record py r = Inr record"
  shows "\<exists>x_open x_high x_low x_close x_adj x_volume.
           py_float py (open r) = Inr x_open \<and> py_float py (high r) = Inr x_high \<and>
           py_float py (low r) = Inr x_low \<and> py_float py (close r) = Inr x_close \<and>
           py_float py (adj_close r) = Inr x_adj \<and> py_int py (volume r) = Inr x_volume \<and>
           record = PyDict
             [(''date'', date_value (date r)), (''open'', PyFloat x_open),
              (''high'', PyFloat x_high), (''low'', PyFloat x_low),
              (''close'', PyFloat x_close), (''adj_close'', PyFloat x_adj),
              (''volume'', PyInt x_volume)]"
  using assms unfolding stock_record_def and_then_eq_Inr by blast


lemma stock_record_jsonable:
  "stock_record py r = Inr record \<Longrightarrow> jsonable record \<longleftrightarrow> (\<forall>b. date r \<noteq> TextBlob b)"
  by (drule stock_record_shape) (cases "date r"; auto)




subsection \<open>Queries\<close>

text \<open>
  Between two TEXT dates the \<^verbatim>\<open>ORDER BY\<close> key compares the strings themselves,
  byte by byte, which for \<^verbatim>\<open>YYYY-MM-DD\<close> dates is the calendar order.
\<close>

lemma date_key_text: "date_key (Text a) \<le> date_key (Text b) \<longleftrightarrow> a \<le> b"
  by simp

lemma date_key_null_first: "date_key TextNull \<le> date_key v"
  by (cases v) simp_all


lemma execute_where_date:
  "tabs ''stocks'' = Some rows \<Longrightarrow>
   execute (Connection tabs) ''SELECT * FROM stocks WHERE date = ?'' [d] =
     Inr (filter (\<lambda>r. date r = Text d) rows)"
  by (simp add: execute_def)

lemma fetchone_filter:
  "fetchone (Inr (filter P rows)) = Inr (find P rows)"
  by (induction rows) (auto simp: fetchone_def)


lemma get_stocks_by_date_try_table:
  assumes "tabs ''stocks'' = Some rows"
  shows "get_stocks_by_date_try py d (Database tabs) =
     (case find (\<lambda>r. date r = Text d) rows of
        Some r \<Rightarrow>
          (and_then (stock_record py r) (\<lambda>rec.
           and_then
             (jsonify (PyDict
                [(''success'', PyBool True),
                 (''data'', rec),
                 (''message'', PyStr (''Successfully retrieved stock data for '' @ d))]))
             (\<lambda>body. Inr (body, 200))),
           Closed)
      | None \<Rightarrow>
          (and_then
             (jsonify (PyDict
                [(''success'', PyBool False),
                 (''error'', PyStr ''Not found''),
                 (''message'', PyStr (''No stock data found for date '' @ d))]))
             (\<lambda>body. Inr (body, 404)),
           Closed))"
  using assms
  by (simp add: get_stocks_by_date_try_def get_db_connection_def date_query_def
      execute_where_date fetchone_filter)

lemma by_date_found:
  assumes "tabs ''stocks'' = Some rows"
    and "find (\<lambda>r. date r = Text d) rows = Some r"
    and "stock_record py r = Inr rec"
  shows "get_stocks_by_date py d (Database tabs) =
           ((PyDict
               [(''success'', PyBool True),
                (''data'', rec),
                (''message'', PyStr (''Successfully retrieved stock data for '' @ d))], 200),
            Closed)"
proof -
  from assms(2) have "date r = Text d"
    by (auto simp: find_Some_iff)
  with assms(3) have "jsonable rec"
    by (simp add: stock_record_jsonable)
  then show ?thesis
    using get_stocks_by_date_try_table [of tabs rows py d] assms
    by (simp add: get_stocks_by_date_def jsonify_def)
qed

lemma by_date_not_found:
  assumes "tabs ''stocks'' = Some rows"
    and "find (\<lambda>r. date r = Text d) rows = None"
  shows "get_stocks_by_date py d (Database tabs) =
           ((PyDict
               [(''success'', PyBool False),
                (''error'', PyStr ''Not found''),
                (''message'', PyStr (''No stock data found for date '' @ d))], 404),
            Closed)"
  using get_stocks_by_date_try_table [of tabs rows py d] assms
  by (simp add: get_stocks_by_date_def jsonify_def)

subsection \<open>Successful responses\<close>



subsection \<open>Timestamps\<close>

lemma digit_char_is_digit: "is_digit (digit_char d)"
proof -
  have "d mod 10 < length ''0123456789''" by simp
  then have "''0123456789'' ! (d mod 10) \<in> set ''0123456789''"
    by (rule nth_mem)
  then show ?thesis unfolding is_digit_def digit_char_def .
qed

lemma str_nat_digits: "list_all is_digit (str_nat n)"
proof (induction n rule: str_nat.induct)
  case (1 n)
  show ?case
  proof (cases "n < 10")
    case True
    then show ?thesis
      by (subst str_nat.simps) (simp add: digit_char_is_digit)
  next
    case False
    with "1" show ?thesis
      by (subst str_nat.simps) (simp add: digit_char_is_digit)
  qed
qed

lemma length_str_nat: "n < 10 ^ w \<Longrightarrow> 0 < w \<Longrightarrow> length (str_nat n) \<le> w"
proof (induction n arbitrary: w rule: str_nat.induct)
  case (1 n)
  show ?case
  proof (cases "n < 10")
    case True
    with "1.prems" show ?thesis
      by (subst str_nat.simps) simp
  next
    case False
    from "1.prems" obtain v where w: "w = Suc v"
      by (cases w) auto
    with "1.prems" False have "0 < v"
      by (cases v) auto
    moreover from "1.prems" w have "n div 10 < 10 ^ v"
      by (simp add: less_mult_imp_div_less mult.commute)
    ultimately have "length (str_nat (n div 10)) \<le> v"
      using "1.IH" False by simp
    with False w show ?thesis
      by (subst str_nat.simps) simp
  qed
qed

lemma matches_digits: "list_all is_digit s \<Longrightarrow> matches (replicate (length s) (CHR ''d'')) s"
  by (induction s) simp_all

lemma matches_append:
  "matches p s \<Longrightarrow> matches q t \<Longrightarrow> matches (p @ q) (s @ t)"
  by (induction p s rule: matches.induct) simp_all

lemma zero_pad_matches:
  assumes "n < 10 ^ w" and "0 < w"
  shows "matches (replicate w (CHR ''d'')) (zero_pad w n)"
proof -
  have len: "length (zero_pad w n) = w"
    using length_str_nat [OF assms] by (simp add: zero_pad_def)
  have "is_digit (CHR ''0'')"
    by (simp add: is_digit_def)
  then have "list_all is_digit (zero_pad w n)"
    using str_nat_digits [of n] by (auto simp: zero_pad_def list_all_iff)
  from matches_digits [OF this] len show ?thesis by simp
qed

lemma replicate_2: "replicate 2 c = [c, c]"
  by (simp add: numeral_eq_Suc)

lemma replicate_4: "replicate 4 c = [c, c, c, c]"
  by (simp add: numeral_eq_Suc)

lemma replicate_6: "replicate 6 c = [c, c, c, c, c, c]"
  by (simp add: numeral_eq_Suc)

lemma zero_pad_2: "n < 100 \<Longrightarrow> matches ''dd'' (zero_pad 2 n)"
  using zero_pad_matches [of n 2] unfolding replicate_2 by simp

lemma zero_pad_4: "n < 10000 \<Longrightarrow> matches ''dddd'' (zero_pad 4 n)"
  using zero_pad_matches [of n 4] unfolding replicate_4 by simp

lemma zero_pad_6: "n < 1000000 \<Longrightarrow> matches ''dddddd'' (zero_pad 6 n)"
  using zero_pad_matches [of n 6] unfolding replicate_6 by simp

lemma isoformat_seconds:
  assumes "valid_datetime t"
  shows "matches ''dddd-dd-ddTdd:dd:dd''
           (zero_pad 4 (year t) @ ''-'' @ zero_pad 2 (month t) @ ''-'' @ zero_pad 2 (day t)
            @ ''T'' @ zero_pad 2 (hour t) @ '':'' @ zero_pad 2 (minute t) @ '':''
            @ zero_pad 2 (second t))"
proof -
  have y: "matches ''dddd'' (zero_pad 4 (year t))"
    and mo: "matches ''dd'' (zero_pad 2 (month t))"
    and d: "matches ''dd'' (zero_pad 2 (day t))"
    and h: "matches ''dd'' (zero_pad 2 (hour t))"
    and mi: "matches ''dd'' (zero_pad 2 (minute t))"
    and s: "matches ''dd'' (zero_pad 2 (second t))"
    using assms by (simp_all add: valid_datetime_def zero_pad_2 zero_pad_4)
  have dash: "matches ''-'' ''-''" and tee: "matches ''T'' ''T''" and colon: "matches '':'' '':''"
    by simp_all
  have "matches (''dddd'' @ ''-'' @ ''dd'' @ ''-'' @ ''dd'' @ ''T'' @ ''dd'' @ '':'' @ ''dd''
          @ '':'' @ ''dd'')
          (zero_pad 4 (year t) @ ''-'' @ zero_pad 2 (month t) @ ''-'' @ zero_pad 2 (day t)
            @ ''T'' @ zero_pad 2 (hour t) @ '':'' @ zero_pad 2 (minute t) @ '':''
            @ zero_pad 2 (second t))"
    by (intro matches_append y mo d h mi s dash tee colon)
  then show ?thesis by simp
qed

lemma isoformat_iso_8601:
  assumes "valid_datetime t"
  shows "iso_8601 (isoformat t)"
proof (cases "microsecond t = 0")
  case True
  with isoformat_seconds [OF assms] show ?thesis
    by (simp add: iso_8601_def isoformat_def)
next
  case False
  have "matches ''.'' ''.''" by simp
  moreover have "matches ''dddddd'' (zero_pad 6 (microsecond t))"
    using assms by (simp add: valid_datetime_def zero_pad_6)
  ultimately have "matches (''.'' @ ''dddddd'') (''.'' @ zero_pad 6 (microsecond t))"
    by (rule matches_append)
  with isoformat_seconds [OF assms]
  have "matches (''dddd-dd-ddTdd:dd:dd'' @ ''.'' @ ''dddddd'')
          ((zero_pad 4 (year t) @ ''-'' @ zero_pad 2 (month t) @ ''-'' @ zero_pad 2 (day t)
            @ ''T'' @ zero_pad 2 (hour t) @ '':'' @ zero_pad 2 (minute t) @ '':''
            @ zero_pad 2 (second t)) @ ''.'' @ zero_pad 6 (microsecond t))"
    by (rule matches_append)
  with False show ?thesis
    by (simp add: iso_8601_def isoformat_def)
qed

section \<open>Claims\<close>





text \<open>
  C3 (corrected). The claim reads: for every date string \<open>d\<close> that matches the
  date of some row, \<^verbatim>\<open>GET /api/stocks/date/d\<close> returns 200 with success true and
  exactly that row's fields, the prices as floats and the volume as an integer.
  What holds: when the first row in storage order whose date equals \<open>d\<close>
  converts, the response is 200 with success true and \<open>data\<close> is that row's
  record: the date \<open>d\<close>, each price the \<^verbatim>\<open>float\<close> of the stored value, the volume
  the \<^verbatim>\<open>int\<close> of the stored value.
\<close>

theorem get_stocks_by_date_first_match:
  assumes "tabs ''stocks'' = Some rows"
    and "find (\<lambda>r. date r = Text d) rows = Some r"
    and "stock_record py r = Inr rec"
  shows "get_stocks_by_date py d (Database tabs) =
           ((PyDict
               [(''success'', PyBool True),
                (''data'', rec),
                (''message'', PyStr (''Successfully retrieved stock data for '' @ d))], 200),
            Closed) \<and>
         (\<exists>x_open x_high x_low x_close x_adj x_volume.
            py_float py (open r) = Inr x_open \<and> py_float py (high r) = Inr x_high \<and>
            py_float py (low r) = Inr x_low \<and> py_float py (close r) = Inr x_close \<and>
            py_float py (adj_close r) = Inr x_adj \<and> py_int py (volume r) = Inr x_volume \<and>
            rec = PyDict
              [(''date'', PyStr d), (''open'', PyFloat x_open),
               (''high'', PyFloat x_high), (''low'', PyFloat x_low),
               (''close'', PyFloat x_close), (''adj_close'', PyFloat x_adj),
               (''volume'', PyInt x_volume)])"
proof -
  from assms(2) have "date r = Text d"
    by (auto simp: find_Some_iff)
  with stock_record_shape [OF assms(3)] have shape:
    "\<exists>x_open x_high x_low x_close x_adj x_volume.
            py_float py (open r) = Inr x_open \<and> py_float py (high r) = Inr x_high \<and>
            py_float py (low r) = Inr x_low \<and> py_float py (close r) = Inr x_close \<and>
            py_float py (adj_close r) = Inr x_adj \<and> py_int py (volume r) = Inr x_volume \<and>
            rec = PyDict
              [(''date'', PyStr d), (''open'', PyFloat x_open),
               (''high'', PyFloat x_high), (''low'', PyFloat x_low),
               (''close'', PyFloat x_close), (''adj_close'', PyFloat x_adj),
               (''volume'', PyInt x_volume)]"
    by simp
  from by_date_found [where tabs=tabs and rows=rows, OF assms] shape show ?thesis by blast
qed

theorem get_stocks_by_date_first_match_witness:
  "get_stocks_by_date decimal_python ''2020-10-01''
     (Database [''stocks'' \<mapsto> [sep30_row, oct01_text_row]]) =
     ((PyDict
         [(''success'', PyBool True),
          (''data'', PyDict
             [(''date'', PyStr ''2020-10-01''), (''open'', PyFloat (969 / 100)),
              (''high'', PyFloat (101 / 10)), (''low'', PyFloat (923 / 100)),
              (''close'', PyFloat (473 / 50)), (''adj_close'', PyFloat (473 / 50)),
              (''volume'', PyInt 124297600)]),
          (''message'', PyStr ''Successfully retrieved stock data for 2020-10-01'')], 200),
      Closed)"
  using get_stocks_by_date_first_match
    [of "[''stocks'' \<mapsto> [sep30_row, oct01_text_row]]" "[sep30_row, oct01_text_row]"
        "''2020-10-01''" oct01_text_row decimal_python
        "PyDict
             [(''date'', PyStr ''2020-10-01''), (''open'', PyFloat (969 / 100)),
              (''high'', PyFloat (101 / 10)), (''low'', PyFloat (923 / 100)),
              (''close'', PyFloat (473 / 50)), (''adj_close'', PyFloat (473 / 50)),
              (''volume'', PyInt 124297600)]"]
  by (simp add: sample_defs)

text \<open>
  The claim as stated fails twice: of two rows with the same date only the first
  is returned, and a matching row with a NULL volume gives 500.
\<close>

theorem get_stocks_by_date_counterexample:
  "stock_record decimal_python sep30_revised_row =
     Inr (PyDict
       [(''date'', PyStr ''2020-09-30''), (''open'', PyFloat 11), (''high'', PyFloat 12),
        (''low'', PyFloat 9), (''close'', PyFloat 10), (''adj_close'', PyFloat 10),
        (''volume'', PyInt 1000)]) \<and>
   fst (get_stocks_by_date decimal_python ''2020-09-30''
     (Database [''stocks'' \<mapsto> [sep30_row, sep30_revised_row]])) =
     (PyDict
        [(''success'', PyBool True),
         (''data'', PyDict
            [(''date'', PyStr ''2020-09-30''), (''open'', PyFloat 10),
             (''high'', PyFloat (1141 / 100)), (''low'', PyFloat (911 / 100)),
             (''close'', PyFloat (19 / 2)), (''adj_close'', PyFloat (19 / 2)),
             (''volume'', PyInt 338584400)]),
         (''message'', PyStr ''Successfully retrieved stock data for 2020-09-30'')], 200) \<and>
   fst (get_stocks_by_date decimal_python ''2020-10-05''
     (Database [''stocks'' \<mapsto> [sep30_row, null_volume_row]])) =
     (PyDict
        [(''success'', PyBool False),
         (''error'', PyStr ''Internal Server Error''),
         (''message'', PyStr ''int() argument must be a string, a bytes-like object or a real number, not NoneType'')],
      500)"
  by (simp add: eval_defs sample_defs)

text \<open>
  C4 (confirmed). For every date string \<open>d\<close> that matches no row of the table,
  \<^verbatim>\<open>GET /api/stocks/date/d\<close> returns status 404 with the body
  \<^verbatim>\<open>{success: false, error: "Not found", message: "No stock data found for date d"}\<close>.
\<close>

theorem get_stocks_by_date_absent:
  assumes "tabs ''stocks'' = Some rows"
    and "\<forall>r\<in>set rows. date r \<noteq> Text d"
  shows "get_stocks_by_date py d (Database tabs) =
           ((PyDict
               [(''success'', PyBool False),
                (''error'', PyStr ''Not found''),
                (''message'', PyStr (''No stock data found for date '' @ d))], 404),
            Closed)"
proof -
  from assms(2) have "find (\<lambda>r. date r = Text d) rows = None"
    by (simp add: find_None_iff)
  with assms(1) show ?thesis
    using by_date_not_found [where tabs=tabs and rows=rows] by simp
qed

theorem get_stocks_by_date_absent_witness:
  "get_stocks_by_date decimal_python ''2020-10-03''
     (Database [''stocks'' \<mapsto> [sep30_row, oct01_text_row]]) =
     ((PyDict
         [(''success'', PyBool False),
          (''error'', PyStr ''Not found''),
          (''message'', PyStr ''No stock data found for date 2020-10-03'')], 404),
      Closed)"
  using get_stocks_by_date_absent
    [of "[''stocks'' \<mapsto> [sep30_row, oct01_text_row]]" "[sep30_row, oct01_text_row]"
        "''2020-10-03''" decimal_python]
  by (simp add: sample_defs)

text \<open>
  C5 (the code departs from the claim). The claim gives the date endpoint the
  error labels of the all-stocks endpoint, \<^verbatim>\<open>Database error\<close> and
  \<^verbatim>\<open>Internal server error\<close>. The two handlers spell them differently: on the same
  failing store, and on the same unconvertible row, \<^verbatim>\<open>get_stocks_by_date\<close> answers
  \<^verbatim>\<open>Database Error\<close> and \<^verbatim>\<open>Internal Server Error\<close>.
\<close>

theorem date_endpoint_error_labels:
  "fst (get_stocks decimal_python (Database Map.empty)) =
     (PyDict
        [(''success'', PyBool False),
         (''error'', PyStr ''Database error''),
         (''message'', PyStr ''no such table: stocks'')], 500) \<and>
   fst (get_stocks_by_date decimal_python ''2020-09-30'' (Database Map.empty)) =
     (PyDict
        [(''success'', PyBool False),
         (''error'', PyStr ''Database Error''),
         (''message'', PyStr ''no such table: stocks'')], 500) \<and>
   fst (get_stocks decimal_python (Database [''stocks'' \<mapsto> [null_volume_row]])) =
     (PyDict
        [(''success'', PyBool False),
         (''error'', PyStr ''Internal server error''),
         (''message'', PyStr (int_none_message decimal_python))], 500) \<and>
   fst (get_stocks_by_date decimal_python ''2020-10-05''
          (Database [''stocks'' \<mapsto> [null_volume_row]])) =
     (PyDict
        [(''success'', PyBool False),
         (''error'', PyStr ''Internal Server Error''),
         (''message'', PyStr (int_none_message decimal_python))], 500)"
  by (simp add: eval_defs sample_defs)

text \<open>
  C6 (the code departs from the claim). The claim has the connection closed
  before the response on every exit path. \<^verbatim>\<open>conn.close()\<close> is an ordinary statement
  of the \<^verbatim>\<open>try\<close> block, so an exception raised before it leaves the connection
  open when the \<^verbatim>\<open>except\<close> clause builds the response: in both handlers when
  the query raises, and in \<^verbatim>\<open>get_stocks\<close> also when a row fails to convert.
\<close>

theorem connection_left_open_on_error:
  "snd (get_stocks decimal_python (Database Map.empty)) = LeftOpen \<and>
   snd (get_stocks decimal_python (Database [''stocks'' \<mapsto> [null_open_row]])) = LeftOpen \<and>
   snd (get_stocks_by_date decimal_python ''2020-09-30'' (Database Map.empty)) = LeftOpen"
  by (simp add: eval_defs sample_defs)

text \<open>
  C7 (confirmed). \<^verbatim>\<open>GET /api/health\<close> returns status 200 with status
  \<^verbatim>\<open>healthy\<close> and the ISO-8601 rendering of the current time, whatever the
  database file is, and opens no connection.
\<close>

theorem health_check_always_healthy:
  assumes "valid_datetime now"
  shows "serve py now f GetHealth =
           ((PyDict [(''status'', PyStr ''healthy''), (''timestamp'', PyStr (isoformat now))],
             200), NotOpened) \<and>
         iso_8601 (isoformat now)"
  using isoformat_iso_8601 [OF assms] by (simp add: health_check_def)

theorem health_check_always_healthy_witness:
  "serve decimal_python
     \<lparr> year = 2024, month = 1, day = 15, hour = 10, minute = 30, second = 45,
       microsecond = 123456 \<rparr>
     (Unopenable ''unable to open database file'') GetHealth =
     ((PyDict [(''status'', PyStr ''healthy''),
               (''timestamp'', PyStr ''2024-01-15T10:30:45.123456'')], 200), NotOpened) \<and>
   iso_8601 ''2024-01-15T10:30:45.123456''"
proof -
  have t: "isoformat \<lparr> year = 2024, month = 1, day = 15, hour = 10, minute = 30, second = 45,
       microsecond = 123456 \<rparr> = ''2024-01-15T10:30:45.123456''"
    by (simp add: isoformat_def zero_pad_def str_nat.simps digit_char_def)
  have v: "valid_datetime \<lparr> year = 2024, month = 1, day = 15, hour = 10, minute = 30,
       second = 45, microsecond = 123456 \<rparr>"
    by (simp add: valid_datetime_def)
  from health_check_always_healthy [OF v, of decimal_python "Unopenable ''unable to open database file''"]
  show ?thesis unfolding t .
qed





text \<open>
  C10 (corrected). The claim reads: when several rows share a date,
  \<^verbatim>\<open>GET /api/stocks/date/d\<close> still returns 200 with exactly one record, the first
  row the query yields, never a list and never an error. What holds: when
  several rows have the date \<open>d\<close> and the first of them converts, the response is
  200 and \<open>data\<close> is the record of that first row, a single object and not a list.
\<close>

theorem get_stocks_by_date_duplicates:
  assumes "tabs ''stocks'' = Some rows"
    and "filter (\<lambda>r. date r = Text d) rows = r # others"
    and "others \<noteq> []"
    and "stock_record py r = Inr rec"
  shows "get_stocks_by_date py d (Database tabs) =
           ((PyDict
               [(''success'', PyBool True),
                (''data'', rec),
                (''message'', PyStr (''Successfully retrieved stock data for '' @ d))], 200),
            Closed) \<and>
         (\<exists>fields. rec = PyDict fields) \<and> (\<forall>records. rec \<noteq> PyList records)"
proof -
  have "find (\<lambda>r. date r = Text d) rows = Some r"
    using assms(2) by (induction rows) (auto split: if_splits)
  from by_date_found [where tabs=tabs and rows=rows, OF assms(1) this assms(4)]
    stock_record_shape [OF assms(4)]
  show ?thesis by auto
qed

theorem get_stocks_by_date_duplicates_witness:
  "get_stocks_by_date decimal_python ''2020-09-30''
     (Database [''stocks'' \<mapsto> [sep30_row, oct01_text_row, sep30_revised_row]]) =
     ((PyDict
         [(''success'', PyBool True),
          (''data'', PyDict
             [(''date'', PyStr ''2020-09-30''), (''open'', PyFloat 10),
              (''high'', PyFloat (1141 / 100)), (''low'', PyFloat (911 / 100)),
              (''close'', PyFloat (19 / 2)), (''adj_close'', PyFloat (19 / 2)),
              (''volume'', PyInt 338584400)]),
          (''message'', PyStr ''Successfully retrieved stock data for 2020-09-30'')], 200),
      Closed)"
  using get_stocks_by_date_duplicates
    [of "[''stocks'' \<mapsto> [sep30_row, oct01_text_row, sep30_revised_row]]"
        "[sep30_row, oct01_text_row, sep30_revised_row]"
        "''2020-09-30''" sep30_row "[sep30_revised_row]" decimal_python
        "PyDict
             [(''date'', PyStr ''2020-09-30''), (''open'', PyFloat 10),
              (''high'', PyFloat (1141 / 100)), (''low'', PyFloat (911 / 100)),
              (''close'', PyFloat (19 / 2)), (''adj_close'', PyFloat (19 / 2)),
              (''volume'', PyInt 338584400)]"]
  by (simp add: sample_defs)

text \<open>
  The claim as stated fails when the first of the rows sharing the date holds
  text that \<^verbatim>\<open>float\<close> rejects: the response is 500, an error.
\<close>

theorem get_stocks_by_date_duplicates_counterexample:
  "fst (get_stocks_by_date decimal_python ''2020-09-30''
     (Database [''stocks'' \<mapsto> [unparsed_open_row, sep30_row]])) =
     (PyDict
        [(''success'', PyBool False),
         (''error'', PyStr ''Internal Server Error''),
         (''message'', PyStr ''could not convert string to float: n/a'')],
      500)"
  by (simp add: eval_defs sample_defs)

end
